theory Spec2Isabelle
  imports Main
begin

section \<open>Values, storage and navigation\<close>

text \<open>
  The two screens (\<^verbatim>\<open>Login\<close> and \<^verbatim>\<open>Dashboard\<close>, both in \<^verbatim>\<open>src/Dashboard.tsx\<close>) read
  response bodies that axios types as \<^verbatim>\<open>any\<close>. \<open>jsval\<close> is the fragment of JavaScript
  values whose behaviour the screens depend on: property reads, truthiness and the string
  conversion performed by \<^verbatim>\<open>localStorage.setItem\<close>. Numbers and arrays are left out; an
  object is the association list of its own properties after parsing.
\<close>

datatype jsval =
    JUndefined
  | JNull
  | JBool bool
  | JStr string
  | JObj "(string \<times> jsval) list"

datatype js_error =
    TypeError
  | AxiosError "(nat \<times> jsval) option"

text \<open>
  \<open>AxiosError None\<close> is a request that got no response (network failure);
  \<open>AxiosError (Some (status, data))\<close> carries \<^verbatim>\<open>err.response.status\<close> and
  \<^verbatim>\<open>err.response.data\<close>. \<open>TypeError\<close> is what a property read on \<^verbatim>\<open>null\<close> or
  \<^verbatim>\<open>undefined\<close> throws; it has no \<^verbatim>\<open>response\<close> property.
\<close>

datatype 'a settled = Resolved 'a | Rejected js_error

text \<open>\<^verbatim>\<open>v.name\<close>: throws on \<^verbatim>\<open>null\<close> and \<^verbatim>\<open>undefined\<close>, is \<^verbatim>\<open>undefined\<close> on a
  primitive or on an object without that property.\<close>

fun get_prop :: "jsval \<Rightarrow> string \<Rightarrow> js_error + jsval" where
  "get_prop JUndefined k = Inl TypeError"
| "get_prop JNull k = Inl TypeError"
| "get_prop (JObj fs) k = Inr (case map_of fs k of None \<Rightarrow> JUndefined | Some v \<Rightarrow> v)"
| "get_prop v k = Inr JUndefined"

text \<open>\<^verbatim>\<open>v?.name\<close>: the optional chain yields \<^verbatim>\<open>undefined\<close> where the plain read throws.\<close>

definition get_prop_opt :: "jsval \<Rightarrow> string \<Rightarrow> jsval" where
  "get_prop_opt v k = (case get_prop v k of Inl e \<Rightarrow> JUndefined | Inr x \<Rightarrow> x)"

fun truthy :: "jsval \<Rightarrow> bool" where
  "truthy JUndefined = False"
| "truthy JNull = False"
| "truthy (JBool b) = b"
| "truthy (JStr s) = (s \<noteq> [])"
| "truthy (JObj fs) = True"

text \<open>The string conversion applied by \<^verbatim>\<open>localStorage.setItem\<close> to its value.\<close>

fun js_String :: "jsval \<Rightarrow> string" where
  "js_String JUndefined = ''undefined''"
| "js_String JNull = ''null''"
| "js_String (JBool b) = (if b then ''true'' else ''false'')"
| "js_String (JStr s) = s"
| "js_String (JObj fs) = ''[object Object]''"

datatype request =
    Post string "(string \<times> string) list"
  | Get string "(string \<times> string) list"

text \<open>
  \<open>Post url body\<close> and \<open>Get url headers\<close>. The browser side of the program: the
  \<^verbatim>\<open>localStorage\<close> slots, the router's current location, and logs of the calls to
  \<^verbatim>\<open>navigate\<close>, of the requests handed to axios and of \<^verbatim>\<open>console.error\<close>.
\<close>

record world =
  localStorage :: "string \<rightharpoonup> string"
  location :: string
  navigations :: "string list"
  requests :: "request list"
  console :: "js_error list"

definition getItem :: "string \<Rightarrow> world \<Rightarrow> string option" where
  "getItem k w = localStorage w k"

definition setItem :: "string \<Rightarrow> jsval \<Rightarrow> world \<Rightarrow> world" where
  "setItem k v w = w\<lparr>localStorage := (localStorage w)(k \<mapsto> js_String v)\<rparr>"

definition removeItem :: "string \<Rightarrow> world \<Rightarrow> world" where
  "removeItem k w = w\<lparr>localStorage := (localStorage w)(k := None)\<rparr>"

definition navigate :: "string \<Rightarrow> world \<Rightarrow> world" where
  "navigate path w = w\<lparr>location := path, navigations := navigations w @ [path]\<rparr>"

definition issue :: "request \<Rightarrow> world \<Rightarrow> world" where
  "issue r w = w\<lparr>requests := requests w @ [r]\<rparr>"

definition console_error :: "js_error \<Rightarrow> world \<Rightarrow> world" where
  "console_error e w = w\<lparr>console := console w @ [e]\<rparr>"

section \<open>Login\<close>

record login_state =
  email :: string
  password :: string
  login_error :: jsval
  login_loading :: bool

definition login_initial :: login_state where
  "login_initial = \<lparr>email = [], password = [], login_error = JNull, login_loading = False\<rparr>"

definition login_request :: "login_state \<Rightarrow> request" where
  "login_request s =
     Post ''http://localhost:8000/api/login'' [(''email'', email s), (''password'', password s)]"

text \<open>\<^verbatim>\<open>handleLogin\<close> up to its \<^verbatim>\<open>await\<close>: the busy flag is raised, the previous error is
  dropped and the request leaves.\<close>

definition handleLogin_submit :: "world \<times> login_state \<Rightarrow> world \<times> login_state" where
  "handleLogin_submit ws =
     (case ws of (w, s) \<Rightarrow>
        (issue (login_request s) w, s\<lparr>login_loading := True, login_error := JNull\<rparr>))"

text \<open>The body of the \<^verbatim>\<open>try\<close> after the \<^verbatim>\<open>await\<close>: a rejected promise and a failing read of
  \<^verbatim>\<open>response.data.token\<close> both leave through \<open>Inl\<close>.\<close>

definition login_try :: "(nat \<times> jsval) settled \<Rightarrow> world \<Rightarrow> js_error + world" where
  "login_try outcome w =
     (case outcome of
        Rejected err \<Rightarrow> Inl err
      | Resolved response \<Rightarrow>
          (case get_prop (snd response) ''token'' of
             Inl err \<Rightarrow> Inl err
           | Inr token \<Rightarrow> Inr (navigate ''/dashboard'' (setItem ''token'' token w))))"

text \<open>\<^verbatim>\<open>err.response?.data?.message || "Something went wrong."\<close>\<close>

definition error_message :: "js_error \<Rightarrow> jsval" where
  "error_message err =
     (let message =
            (case err of
               TypeError \<Rightarrow> JUndefined
             | AxiosError None \<Rightarrow> JUndefined
             | AxiosError (Some response) \<Rightarrow> get_prop_opt (snd response) ''message'')
      in if truthy message then message else JStr ''Something went wrong.'')"

text \<open>\<^verbatim>\<open>handleLogin\<close> after the \<^verbatim>\<open>await\<close>: \<^verbatim>\<open>try\<close>, \<^verbatim>\<open>catch\<close>, \<^verbatim>\<open>finally\<close>.\<close>

definition handleLogin_settle ::
  "(nat \<times> jsval) settled \<Rightarrow> world \<times> login_state \<Rightarrow> world \<times> login_state" where
  "handleLogin_settle outcome ws =
     (case ws of (w, s) \<Rightarrow>
        (case login_try outcome w of
           Inr w' \<Rightarrow> (w', s\<lparr>login_loading := False\<rparr>)
         | Inl err \<Rightarrow> (w, s\<lparr>login_error := error_message err, login_loading := False\<rparr>)))"

text \<open>One submission of the form against a server that answers \<open>request\<close> with
  \<open>server request\<close>.\<close>

definition handleLogin ::
  "(request \<Rightarrow> (nat \<times> jsval) settled) \<Rightarrow> world \<times> login_state \<Rightarrow> world \<times> login_state" where
  "handleLogin server ws =
     handleLogin_settle (server (login_request (snd ws))) (handleLogin_submit ws)"

section \<open>Dashboard: session gate and fetch\<close>

datatype amount = AmountStr string | AmountNum int

text \<open>
  \<^verbatim>\<open>rent_amount: string | number\<close>; \<open>AmountNum\<close> holds the integer-valued numbers. The field
  \<^verbatim>\<open>id\<close> is \<open>lease_id\<close> here.
\<close>

record lease =
  lease_id :: int
  unit_name :: string
  rent_amount :: amount
  end_date :: string
  contract_url :: "string option"

record tenant_data =
  tenant_name :: string
  contact_number :: string
  active_leases :: "lease list"

text \<open>
  \<^verbatim>\<open>response.data\<close> of the dashboard request. TypeScript types it \<^verbatim>\<open>any\<close> and nothing checks
  it at run time: it is either a value of the shape the interface \<^verbatim>\<open>TenantData\<close> declares,
  or any other value. For a 2xx response whose body is empty or is not JSON, axios resolves
  with the text as received (\<open>Raw (JStr text)\<close>).
\<close>

datatype body = Profile tenant_data | Raw jsval

text \<open>The state variable \<^verbatim>\<open>data\<close> starts as \<^verbatim>\<open>null\<close> and later holds whatever
  \<^verbatim>\<open>setData(response.data)\<close> stored.\<close>

record dashboard_state =
  data :: body
  loading :: bool
  error :: "string option"

definition dashboard_initial :: dashboard_state where
  "dashboard_initial = \<lparr>data = Raw JNull, loading = True, error = None\<rparr>"

datatype locale_id = En_US | En_GB | De_DE

text \<open>
  What the program takes from where it runs: the build-time variable
  \<^verbatim>\<open>import.meta.env.VITE_API_BASE_URL\<close>, the default locale used by a
  \<^verbatim>\<open>toLocaleString()\<close> without arguments, and the offset of local time from UTC in minutes
  (positive east of Greenwich) used by \<^verbatim>\<open>toLocaleDateString\<close> without a \<^verbatim>\<open>timeZone\<close> option.
\<close>

record runtime =
  VITE_API_BASE_URL :: string
  default_locale :: locale_id
  tz_offset :: int

definition dashboard_request :: "runtime \<Rightarrow> string \<Rightarrow> request" where
  "dashboard_request rt TOKEN =
     Get (VITE_API_BASE_URL rt @ ''/tenant/dashboard'')
       [(''Accept'', ''application/json''), (''Authorization'', ''Bearer '' @ TOKEN)]"

text \<open>
  The synchronous part of the effect. \<^verbatim>\<open>!TOKEN\<close> holds for \<^verbatim>\<open>null\<close> (no slot) and for the
  empty string. The second component is the request whose promise is pending, if any.
\<close>

definition Dashboard_gate :: "runtime \<Rightarrow> world \<Rightarrow> world \<times> request option" where
  "Dashboard_gate rt w =
     (case getItem ''token'' w of
        None \<Rightarrow> (navigate ''/'' w, None)
      | Some TOKEN \<Rightarrow>
          if TOKEN = [] then (navigate ''/'' w, None)
          else (issue (dashboard_request rt TOKEN) w, Some (dashboard_request rt TOKEN)))"

text \<open>The \<^verbatim>\<open>.then\<close> handler: the body is stored as it came.\<close>

definition Dashboard_then ::
  "nat \<times> body \<Rightarrow> world \<times> dashboard_state \<Rightarrow> world \<times> dashboard_state" where
  "Dashboard_then response ws =
     (case ws of (w, s) \<Rightarrow> (w, s\<lparr>data := snd response, loading := False\<rparr>))"

text \<open>\<^verbatim>\<open>err.response?.status\<close>\<close>

fun response_status :: "js_error \<Rightarrow> nat option" where
  "response_status (AxiosError (Some response)) = Some (fst response)"
| "response_status err = None"

text \<open>The \<^verbatim>\<open>.catch\<close> handler.\<close>

definition Dashboard_catch ::
  "js_error \<Rightarrow> world \<times> dashboard_state \<Rightarrow> world \<times> dashboard_state" where
  "Dashboard_catch err ws =
     (case ws of (w, s) \<Rightarrow>
        if response_status err = Some 401
        then (navigate ''/'' (removeItem ''token'' (console_error err w)), s)
        else (console_error err w,
              s\<lparr>error := Some ''Could not load data. Ensure your Laravel server is running.'',
                loading := False\<rparr>))"

definition Dashboard_settle ::
  "(nat \<times> body) settled \<Rightarrow> world \<times> dashboard_state \<Rightarrow> world \<times> dashboard_state" where
  "Dashboard_settle outcome ws =
     (case outcome of
        Resolved response \<Rightarrow> Dashboard_then response ws
      | Rejected err \<Rightarrow> Dashboard_catch err ws)"

text \<open>One activation of the dashboard route against a server that answers \<open>request\<close>
  with \<open>server request\<close>.\<close>

definition Dashboard_effect ::
  "runtime \<Rightarrow> (request \<Rightarrow> (nat \<times> body) settled) \<Rightarrow>
     world \<times> dashboard_state \<Rightarrow> world \<times> dashboard_state" where
  "Dashboard_effect rt server ws =
     (case Dashboard_gate rt (fst ws) of
        (w', None) \<Rightarrow> (w', snd ws)
      | (w', Some r) \<Rightarrow> Dashboard_settle (server r) (w', snd ws))"

text \<open>The \<^verbatim>\<open>onClick\<close> of the sign-out button.\<close>

definition sign_out :: "world \<Rightarrow> world" where
  "sign_out w = navigate ''/'' (removeItem ''token'' w)"

section \<open>Host formatting\<close>

text \<open>
  The render calls \<^verbatim>\<open>Number(x).toLocaleString()\<close> and
  \<^verbatim>\<open>new Date(x).toLocaleDateString('en-GB', {day: 'numeric', month: 'long', year: 'numeric'})\<close>.
  Both belong to the JavaScript host. They are modelled on the inputs a lease record
  normally carries, and are \<open>None\<close> outside that fragment: a value that is \<open>None\<close> says
  nothing about what the host prints.
\<close>

definition digit_char :: "nat \<Rightarrow> char" where
  "digit_char d = ''0123456789'' ! (d mod 10)"

fun decimal :: "nat \<Rightarrow> string" where
  "decimal n = (if n < 10 then [digit_char n] else decimal (n div 10) @ [digit_char (n mod 10)])"

declare decimal.simps [simp del]

definition digit_of :: "char \<Rightarrow> nat option" where
  "digit_of c =
     map_of [(CHR ''0'', 0), (CHR ''1'', 1), (CHR ''2'', 2), (CHR ''3'', 3), (CHR ''4'', 4),
             (CHR ''5'', 5), (CHR ''6'', 6), (CHR ''7'', 7), (CHR ''8'', 8), (CHR ''9'', 9)] c"

fun digits_value :: "nat \<Rightarrow> string \<Rightarrow> nat option" where
  "digits_value acc [] = Some acc"
| "digits_value acc (c # cs) =
     (case digit_of c of None \<Rightarrow> None | Some d \<Rightarrow> digits_value (10 * acc + d) cs)"

definition MAX_SAFE_INTEGER :: nat where
  "MAX_SAFE_INTEGER = 9007199254740991"

text \<open>
  \<^verbatim>\<open>Number(x)\<close> on a number is the number; on a string of decimal digits it is their value
  (the empty string gives 0). Modelled for the non-negative integers a double holds
  exactly.
\<close>

definition js_Number :: "amount \<Rightarrow> nat option" where
  "js_Number x =
     (case x of
        AmountNum n \<Rightarrow> if 0 \<le> n \<and> nat n \<le> MAX_SAFE_INTEGER then Some (nat n) else None
      | AmountStr s \<Rightarrow>
          (case digits_value 0 s of
             None \<Rightarrow> None
           | Some n \<Rightarrow> if n \<le> MAX_SAFE_INTEGER then Some n else None))"

definition group_separator :: "locale_id \<Rightarrow> string" where
  "group_separator l = (case l of En_US \<Rightarrow> '','' | En_GB \<Rightarrow> '','' | De_DE \<Rightarrow> ''.'')"

definition pad3 :: "nat \<Rightarrow> string" where
  "pad3 n = [digit_char (n div 100), digit_char (n div 10), digit_char n]"

fun grouped :: "string \<Rightarrow> nat \<Rightarrow> string" where
  "grouped sep n =
     (if n < 1000 then decimal n else grouped sep (n div 1000) @ sep @ pad3 (n mod 1000))"

declare grouped.simps [simp del]

text \<open>\<^verbatim>\<open>n.toLocaleString()\<close> in the default locale: digits in groups of three.\<close>

definition toLocaleString :: "locale_id \<Rightarrow> nat \<Rightarrow> string" where
  "toLocaleString l n = grouped (group_separator l) n"

definition leap_year :: "nat \<Rightarrow> bool" where
  "leap_year y = (y mod 4 = 0 \<and> (0 < y mod 100 \<or> y mod 400 = 0))"

definition days_in_month :: "nat \<Rightarrow> nat \<Rightarrow> nat" where
  "days_in_month y m =
     (if m = 2 then (if leap_year y then 29 else 28)
      else if m = 4 \<or> m = 6 \<or> m = 9 \<or> m = 11 then 30 else 31)"

text \<open>
  \<^verbatim>\<open>new Date(s)\<close> for the date-only form \<^verbatim>\<open>YYYY-MM-DD\<close>: midnight UTC at the start of that
  calendar day, given as (year, month, day). Modelled for valid dates from 1970 on.
\<close>

fun Date_parse :: "string \<Rightarrow> (nat \<times> nat \<times> nat) option" where
  "Date_parse [y1, y2, y3, y4, h1, m1, m2, h2, d1, d2] =
     (if h1 = CHR ''-'' \<and> h2 = CHR ''-'' then
        (case digits_value 0 [y1, y2, y3, y4] of
           None \<Rightarrow> None
         | Some y \<Rightarrow>
             (case digits_value 0 [m1, m2] of
                None \<Rightarrow> None
              | Some m \<Rightarrow>
                  (case digits_value 0 [d1, d2] of
                     None \<Rightarrow> None
                   | Some d \<Rightarrow>
                       if 1970 \<le> y \<and> 1 \<le> m \<and> m \<le> 12 \<and> 1 \<le> d \<and> d \<le> days_in_month y m
                       then Some (y, m, d) else None)))
      else None)"
| "Date_parse s = None"

definition prev_day :: "nat \<times> nat \<times> nat \<Rightarrow> nat \<times> nat \<times> nat" where
  "prev_day ymd =
     (case ymd of (y, m, d) \<Rightarrow>
        if 1 < d then (y, m, d - 1)
        else if 1 < m then (y, m - 1, days_in_month y (m - 1))
        else (y - 1, 12, 31))"

text \<open>
  The local calendar day of a UTC midnight: the same day at or east of Greenwich, the day
  before to the west. Offsets are less than a day.
\<close>

definition local_date :: "int \<Rightarrow> nat \<times> nat \<times> nat \<Rightarrow> (nat \<times> nat \<times> nat) option" where
  "local_date tz ymd =
     (if 0 \<le> tz \<and> tz < 1440 then Some ymd
      else if - 1440 < tz \<and> tz < 0 then Some (prev_day ymd)
      else None)"

definition month_name :: "nat \<Rightarrow> string" where
  "month_name m =
     [''January'', ''February'', ''March'', ''April'', ''May'', ''June'', ''July'', ''August'',
      ''September'', ''October'', ''November'', ''December''] ! ((m - 1) mod 12)"

text \<open>The \<^verbatim>\<open>en-GB\<close> long form: day, month name, year, in local time.\<close>

definition toLocaleDateString :: "int \<Rightarrow> string \<Rightarrow> string option" where
  "toLocaleDateString tz s =
     (case Date_parse s of
        None \<Rightarrow> None
      | Some utc \<Rightarrow>
          (case local_date tz utc of
             None \<Rightarrow> None
           | Some (y, m, d) \<Rightarrow> Some (decimal d @ '' '' @ month_name m @ '' '' @ decimal y)))"

section \<open>Dashboard: render\<close>

text \<open>
  What the component returns, without class names and link attributes other than
  \<^verbatim>\<open>href\<close>: \<open>El tag children\<close>, a button with its click handler, an anchor with its
  \<^verbatim>\<open>href\<close>, literal or interpolated text, and text computed by the host (\<open>None\<close> where the
  host model is silent). A string is its UTF-8 bytes: the pin glyph (U+1F4CD), the page
  glyph (U+1F4C4) and the arrow of \<^verbatim>\<open>&rarr;\<close> (U+2192) in the source's literals are the
  byte sequences below.
\<close>

definition pin_glyph :: string where
  "pin_glyph = [CHR 0xF0, CHR 0x9F, CHR 0x93, CHR 0x8D]"

definition page_glyph :: string where
  "page_glyph = [CHR 0xF0, CHR 0x9F, CHR 0x93, CHR 0x84]"

definition rarr :: string where
  "rarr = [CHR 0xE2, CHR 0x86, CHR 0x92]"

datatype handler = SignOut

datatype elem =
    Txt string
  | Hosted "string option"
  | El string "elem list"
  | Button handler "elem list"
  | Anchor string "elem list"

definition run_handler :: "handler \<Rightarrow> world \<Rightarrow> world" where
  "run_handler h w = (case h of SignOut \<Rightarrow> sign_out w)"

text \<open>The badge: \<^verbatim>\<open>{n} Active {n === 1 ? 'Lease' : 'Leases'}\<close>\<close>

definition header_badge :: "tenant_data \<Rightarrow> elem" where
  "header_badge d =
     El ''div''
       [Txt (decimal (length (active_leases d))),
        Txt '' Active '',
        Txt (if length (active_leases d) = 1 then ''Lease'' else ''Leases'')]"

text \<open>\<^verbatim>\<open>lease.contract_url ? <a href=...> : <span>\<close>; \<^verbatim>\<open>null\<close> and the empty string are
  falsy.\<close>

definition contract_area :: "lease \<Rightarrow> elem" where
  "contract_area l =
     (case contract_url l of
        None \<Rightarrow> El ''span'' [Txt ''No contract uploaded'']
      | Some url \<Rightarrow>
          if url = [] then El ''span'' [Txt ''No contract uploaded'']
          else Anchor url [Txt (page_glyph @ '' View Signed Contract '' @ rarr)])"

definition rent_line :: "runtime \<Rightarrow> lease \<Rightarrow> elem" where
  "rent_line rt l =
     El ''p''
       [Txt ''AED '',
        Hosted (map_option (toLocaleString (default_locale rt)) (js_Number (rent_amount l)))]"

definition date_line :: "runtime \<Rightarrow> lease \<Rightarrow> elem" where
  "date_line rt l = El ''p'' [Hosted (toLocaleDateString (tz_offset rt) (end_date l))]"

definition lease_card :: "runtime \<Rightarrow> lease \<Rightarrow> elem" where
  "lease_card rt l =
     El ''div''
       [El ''div'' [El ''h3'' [Txt (pin_glyph @ '' Unit: ''), Txt (unit_name l)]],
        El ''div''
          [El ''div'' [El ''p'' [Txt ''Annual Rent Amount''], rent_line rt l],
           El ''div''
             [El ''p'' [Txt ''Contract Expiration''],
              date_line rt l,
              El ''div'' [contract_area l]]]]"

definition nav_bar :: "tenant_data \<Rightarrow> elem" where
  "nav_bar d =
     El ''nav''
       [El ''div''
          [El ''div''
             [El ''div''
                [El ''div'' [Txt ''PE''],
                 El ''div'' [El ''h1'' [Txt ''PropEase''], El ''p'' [Txt ''Tenant Portal'']]],
              El ''div''
                [El ''div'' [El ''p'' [Txt (tenant_name d)], El ''p'' [Txt ''Logged In'']],
                 Button SignOut [Txt ''Sign Out'']]]]]"

definition main_area :: "runtime \<Rightarrow> tenant_data \<Rightarrow> elem" where
  "main_area rt d =
     El ''main''
       [El ''header''
          [El ''div''
             [El ''h2'' [Txt ''Your Property Overview''],
              El ''p'' [Txt ''View your current lease details and important documents.'']],
           header_badge d],
        (if 0 < length (active_leases d)
         then El ''div'' (map (lease_card rt) (active_leases d))
         else El ''div''
                [Txt ''You do not currently have any active leases assigned to your profile.''])]"

text \<open>
  What a call of the component comes to: a tree, \<^verbatim>\<open>null\<close>, or an exception thrown while
  the JSX is evaluated. \<open>Unmodelled\<close> marks the bodies on which this model does not follow
  the evaluation (see below); it says nothing about what the component does there.
\<close>

datatype outcome = Shows elem | Nothing | Throws js_error | Unmodelled

definition shown :: "outcome \<Rightarrow> elem option" where
  "shown r = (case r of Shows v \<Rightarrow> Some v | Nothing \<Rightarrow> None | Throws e \<Rightarrow> None
              | Unmodelled \<Rightarrow> None)"

text \<open>
  The component's return. A state variable \<^verbatim>\<open>error\<close> holding the empty string is falsy.
  Stored data that is falsy gives \<^verbatim>\<open>return null\<close>. Stored data that is truthy but has no
  \<^verbatim>\<open>active_leases\<close> (a text, an object of another shape) passes \<^verbatim>\<open>data.tenant_name\<close> and
  throws at \<^verbatim>\<open>data.active_leases.length\<close>. Data with some other \<^verbatim>\<open>active_leases\<close> is not
  followed.
\<close>

definition Dashboard_render :: "runtime \<Rightarrow> dashboard_state \<Rightarrow> outcome" where
  "Dashboard_render rt s =
     (if loading s then Shows (El ''div'' [Txt ''Loading your portal...''])
      else if error s \<noteq> None \<and> error s \<noteq> Some []
        then Shows (El ''div'' [Txt (case error s of None \<Rightarrow> [] | Some e \<Rightarrow> e)])
      else case data s of
             Profile d \<Rightarrow> Shows (El ''div'' [nav_bar d, main_area rt d])
           | Raw v \<Rightarrow>
               if \<not> truthy v then Nothing
               else (case get_prop_opt v ''active_leases'' of
                       JUndefined \<Rightarrow> Throws TypeError
                     | JNull \<Rightarrow> Throws TypeError
                     | JBool b \<Rightarrow> Unmodelled
                     | JStr t \<Rightarrow> Unmodelled
                     | JObj fs \<Rightarrow> Unmodelled))"

subsection \<open>Observations on a rendered tree\<close>

text \<open>The click handlers of the buttons in a tree, in document order.\<close>

fun buttons :: "elem \<Rightarrow> handler list" where
  "buttons (Txt s) = []"
| "buttons (Hosted h) = []"
| "buttons (El t cs) = concat (map buttons cs)"
| "buttons (Button h cs) = h # concat (map buttons cs)"
| "buttons (Anchor u cs) = concat (map buttons cs)"

text \<open>The \<^verbatim>\<open>href\<close>s of the anchors in a tree.\<close>

fun anchors :: "elem \<Rightarrow> string list" where
  "anchors (Txt s) = []"
| "anchors (Hosted h) = []"
| "anchors (El t cs) = concat (map anchors cs)"
| "anchors (Button h cs) = concat (map anchors cs)"
| "anchors (Anchor u cs) = u # concat (map anchors cs)"

text \<open>The children of the elements with a given tag.\<close>

fun tagged :: "string \<Rightarrow> elem \<Rightarrow> elem list list" where
  "tagged t (Txt s) = []"
| "tagged t (Hosted h) = []"
| "tagged t (El t' cs) = (if t' = t then [cs] else []) @ concat (map (tagged t) cs)"
| "tagged t (Button h cs) = concat (map (tagged t) cs)"
| "tagged t (Anchor u cs) = concat (map (tagged t) cs)"

text \<open>The text of a tree as the browser shows it, \<open>None\<close> if it holds a text on which the
  host model is silent.\<close>

fun textContent :: "elem \<Rightarrow> string option" where
  "textContent (Txt s) = Some s"
| "textContent (Hosted h) = h"
| "textContent (El t cs) = map_option concat (those (map textContent cs))"
| "textContent (Button h cs) = map_option concat (those (map textContent cs))"
| "textContent (Anchor u cs) = map_option concat (those (map textContent cs))"

text \<open>The screen's states, read off the state variables as the render does.\<close>

datatype screen = Loading | Failed | Loaded | Blank | Garbled

text \<open>\<open>Loaded\<close>: a profile is held and rendered. \<open>Blank\<close>: the data is falsy. \<open>Garbled\<close>:
  the data is truthy but no profile.\<close>

definition screen_of :: "dashboard_state \<Rightarrow> screen" where
  "screen_of s =
     (if loading s then Loading
      else if error s \<noteq> None \<and> error s \<noteq> Some [] then Failed
      else case data s of
             Profile d \<Rightarrow> Loaded
           | Raw v \<Rightarrow> if truthy v then Garbled else Blank)"

section \<open>Concrete inputs\<close>

text \<open>A browser with empty storage at the entry route, one holding the credential
  \<^verbatim>\<open>abc\<close>, one holding an empty credential, and a host in the Gulf time zone (UTC+4).\<close>

definition fresh_world :: world where
  "fresh_world =
     \<lparr>localStorage = Map.empty, location = ''/'', navigations = [], requests = [], console = []\<rparr>"

definition signed_in_world :: world where
  "signed_in_world =
     \<lparr>localStorage = [''token'' \<mapsto> ''abc''], location = ''/dashboard'', navigations = [],
      requests = [], console = []\<rparr>"

definition empty_token_world :: world where
  "empty_token_world =
     \<lparr>localStorage = [''token'' \<mapsto> []], location = ''/dashboard'', navigations = [],
      requests = [], console = []\<rparr>"

definition gulf_runtime :: runtime where
  "gulf_runtime =
     \<lparr>VITE_API_BASE_URL = ''http://localhost:8000/api'', default_locale = En_GB, tz_offset = 240\<rparr>"

definition filled_form :: login_state where
  "filled_form =
     \<lparr>email = ''a@b.com'', password = ''x'', login_error = JNull, login_loading = False\<rparr>"

definition scenario_lease :: lease where
  "scenario_lease =
     \<lparr>lease_id = 1, unit_name = ''A1'', rent_amount = AmountStr ''120000'',
      end_date = ''2025-12-31'', contract_url = None\<rparr>"

definition scenario_profile :: tenant_data where
  "scenario_profile =
     \<lparr>tenant_name = ''J'', contact_number = ''555'', active_leases = [scenario_lease]\<rparr>"

definition signed_lease :: lease where
  "signed_lease =
     \<lparr>lease_id = 2, unit_name = ''B7'', rent_amount = AmountNum 95000,
      end_date = ''2026-06-30'', contract_url = Some ''https://files.example/contract-2.pdf''\<rparr>"

definition two_lease_profile :: tenant_data where
  "two_lease_profile =
     \<lparr>tenant_name = ''J'', contact_number = ''555'',
      active_leases = [signed_lease, scenario_lease]\<rparr>"

section \<open>Properties of the login flow\<close>

lemmas world_ops =
  getItem_def setItem_def removeItem_def navigate_def issue_def console_error_def

lemmas login_flow =
  handleLogin_def handleLogin_submit_def handleLogin_settle_def login_try_def login_request_def



text \<open>
  C4. When the login request is rejected, the error shown is the \<^verbatim>\<open>message\<close> of the error
  response's body when that is a non-empty string, and \<^verbatim>\<open>Something went wrong.\<close> when
  there is no response, no body or no (or an empty) message; nothing is navigated or
  stored, and the busy flag is down again.
\<close>

theorem login_failure_shows_message:
  assumes "server (login_request s) = Rejected err"
  shows "login_error (snd (handleLogin server (w, s))) = error_message err
       \<and> (\<forall>st body m. err = AxiosError (Some (st, body))
              \<and> get_prop_opt body ''message'' = JStr m \<and> m \<noteq> []
            \<longrightarrow> login_error (snd (handleLogin server (w, s))) = JStr m)
       \<and> (\<forall>st body. err = AxiosError (Some (st, body))
              \<and> \<not> truthy (get_prop_opt body ''message'')
            \<longrightarrow> login_error (snd (handleLogin server (w, s))) = JStr ''Something went wrong.'')
       \<and> (err = AxiosError None \<or> err = TypeError
            \<longrightarrow> login_error (snd (handleLogin server (w, s))) = JStr ''Something went wrong.'')
       \<and> navigations (fst (handleLogin server (w, s))) = navigations w
       \<and> location (fst (handleLogin server (w, s))) = location w
       \<and> localStorage (fst (handleLogin server (w, s))) = localStorage w
       \<and> login_loading (snd (handleLogin server (w, s))) = False"
  using assms by (auto simp: login_flow world_ops error_message_def)

theorem login_failure_shows_message_witness:
  "login_error
     (snd (handleLogin
        (\<lambda>r. Rejected (AxiosError (Some (422, JObj [(''message'', JStr ''Invalid credentials'')]))))
        (fresh_world, filled_form))) = JStr ''Invalid credentials''
   \<and> navigations
     (fst (handleLogin
        (\<lambda>r. Rejected (AxiosError (Some (422, JObj [(''message'', JStr ''Invalid credentials'')]))))
        (fresh_world, filled_form))) = []
   \<and> login_loading
     (snd (handleLogin
        (\<lambda>r. Rejected (AxiosError (Some (422, JObj [(''message'', JStr ''Invalid credentials'')]))))
        (fresh_world, filled_form))) = False
   \<and> login_error
     (snd (handleLogin (\<lambda>r. Rejected (AxiosError None)) (fresh_world, filled_form)))
       = JStr ''Something went wrong.''
   \<and> login_error
     (snd (handleLogin (\<lambda>r. Rejected (AxiosError (Some (500, JStr ''<html>''))))
        (fresh_world, filled_form))) = JStr ''Something went wrong.''"
proof -
  have e1: "error_message (AxiosError (Some (422, JObj [(''message'', JStr ''Invalid credentials'')])))
              = JStr ''Invalid credentials''"
    by (simp add: error_message_def get_prop_opt_def)
  have e2: "error_message (AxiosError None) = JStr ''Something went wrong.''"
    by (simp add: error_message_def)
  have e3: "error_message (AxiosError (Some (500, JStr ''<html>''))) = JStr ''Something went wrong.''"
    by (simp add: error_message_def get_prop_opt_def)
  have n: "navigations fresh_world = []"
    by (simp add: fresh_world_def)
  show ?thesis
    using login_failure_shows_message
      [of "\<lambda>r. Rejected (AxiosError (Some (422, JObj [(''message'', JStr ''Invalid credentials'')])))"
          filled_form
          "AxiosError (Some (422, JObj [(''message'', JStr ''Invalid credentials'')]))" fresh_world]
      login_failure_shows_message
      [of "\<lambda>r. Rejected (AxiosError None)" filled_form "AxiosError None" fresh_world]
      login_failure_shows_message
      [of "\<lambda>r. Rejected (AxiosError (Some (500, JStr ''<html>'')))" filled_form
          "AxiosError (Some (500, JStr ''<html>''))" fresh_world]
    by (simp only: e1 e2 e3 n simp_thms)
qed



section \<open>Properties of the session gate and the fetch\<close>

lemmas dashboard_flow =
  Dashboard_effect_def Dashboard_gate_def Dashboard_settle_def Dashboard_then_def
  Dashboard_catch_def

text \<open>
  C1. When the slot \<^verbatim>\<open>token\<close> is absent or holds the empty string, an activation of the
  dashboard only navigates to the entry route: the request log is unchanged and the
  server is never asked. In every browser state the synchronous step of an activation
  either redirects and issues nothing, or issues the one request and does not redirect.
\<close>

theorem gate_redirects_without_credential:
  "(getItem ''token'' w = None \<or> getItem ''token'' w = Some [] \<longrightarrow>
      Dashboard_effect rt server (w, s) = (navigate ''/'' w, s)
      \<and> requests (fst (Dashboard_effect rt server (w, s))) = requests w
      \<and> location (fst (Dashboard_effect rt server (w, s))) = ''/''
      \<and> navigations (fst (Dashboard_effect rt server (w, s))) = navigations w @ [''/''])
   \<and> (case Dashboard_gate rt w of
         (w', None) \<Rightarrow> requests w' = requests w \<and> navigations w' = navigations w @ [''/'']
       | (w', Some r) \<Rightarrow> requests w' = requests w @ [r] \<and> navigations w' = navigations w)"
  by (auto simp: dashboard_flow world_ops split: option.splits)

theorem gate_redirects_without_credential_witness:
  "getItem ''token'' fresh_world = None
   \<and> getItem ''token'' empty_token_world = Some []
   \<and> requests (fst (Dashboard_effect gulf_runtime (\<lambda>r. Resolved (200, Profile scenario_profile))
        (fresh_world, dashboard_initial))) = []
   \<and> location (fst (Dashboard_effect gulf_runtime (\<lambda>r. Resolved (200, Profile scenario_profile))
        (fresh_world, dashboard_initial))) = ''/''
   \<and> requests (fst (Dashboard_effect gulf_runtime (\<lambda>r. Resolved (200, Profile scenario_profile))
        (empty_token_world, dashboard_initial))) = []
   \<and> location (fst (Dashboard_effect gulf_runtime (\<lambda>r. Resolved (200, Profile scenario_profile))
        (empty_token_world, dashboard_initial))) = ''/''"
proof -
  have a: "getItem ''token'' fresh_world = None" "requests fresh_world = []"
    by (simp_all add: fresh_world_def getItem_def)
  have b: "getItem ''token'' empty_token_world = Some []" "requests empty_token_world = []"
    by (simp_all add: empty_token_world_def getItem_def)
  show ?thesis
    using gate_redirects_without_credential
      [of fresh_world gulf_runtime "\<lambda>r. Resolved (200, Profile scenario_profile)" dashboard_initial]
      gate_redirects_without_credential
      [of empty_token_world gulf_runtime "\<lambda>r. Resolved (200, Profile scenario_profile)"
          dashboard_initial]
    by (simp add: a b navigate_def)
qed

text \<open>
  C2. When the gate finds a credential and the server rejects the request with status 401,
  the slot \<^verbatim>\<open>token\<close> is removed, the route becomes the entry route, and no state variable
  of the screen is set: the error stays as it was (absent after a fresh activation, where
  the screen still shows the loading line).
\<close>

theorem unauthorized_clears_and_redirects:
  assumes "getItem ''token'' w = Some t" and "t \<noteq> []"
    and "server (dashboard_request rt t) = Rejected err"
    and "response_status err = Some 401"
  shows "getItem ''token'' (fst (Dashboard_effect rt server (w, s))) = None
       \<and> location (fst (Dashboard_effect rt server (w, s))) = ''/''
       \<and> navigations (fst (Dashboard_effect rt server (w, s))) = navigations w @ [''/'']
       \<and> snd (Dashboard_effect rt server (w, s)) = s
       \<and> error (snd (Dashboard_effect rt server (w, dashboard_initial))) = None
       \<and> Dashboard_render rt (snd (Dashboard_effect rt server (w, dashboard_initial)))
           = Shows (El ''div'' [Txt ''Loading your portal...''])"
  using assms
  by (simp add: dashboard_flow world_ops dashboard_initial_def Dashboard_render_def)

theorem unauthorized_clears_and_redirects_witness:
  "getItem ''token'' signed_in_world = Some ''abc''
   \<and> getItem ''token''
       (fst (Dashboard_effect gulf_runtime (\<lambda>r. Rejected (AxiosError (Some (401, JNull))))
          (signed_in_world, dashboard_initial))) = None
   \<and> location
       (fst (Dashboard_effect gulf_runtime (\<lambda>r. Rejected (AxiosError (Some (401, JNull))))
          (signed_in_world, dashboard_initial))) = ''/''
   \<and> error
       (snd (Dashboard_effect gulf_runtime (\<lambda>r. Rejected (AxiosError (Some (401, JNull))))
          (signed_in_world, dashboard_initial))) = None"
proof -
  have a: "getItem ''token'' signed_in_world = Some ''abc''"
    by (simp add: signed_in_world_def getItem_def)
  have b: "response_status (AxiosError (Some (401, JNull))) = Some 401"
    by simp
  show ?thesis
    using unauthorized_clears_and_redirects
      [of signed_in_world "''abc''" "\<lambda>r. Rejected (AxiosError (Some (401, JNull)))"
          gulf_runtime "AxiosError (Some (401, JNull))" dashboard_initial, OF a _ _ b]
    by (simp add: a dashboard_initial_def)
qed

text \<open>
  C5, as the claim states it, fails on a malformed response: a 2xx response is resolved by
  axios whatever its body, the body is stored as the data, and no error is set. With an
  empty body the screen then renders nothing; with a body that is a text it throws while
  rendering. In neither case is an error message shown.
\<close>

theorem malformed_body_shows_no_message:
  "error (snd (Dashboard_effect gulf_runtime (\<lambda>r. Resolved (200, Raw (JStr [])))
       (signed_in_world, dashboard_initial))) = None
   \<and> Dashboard_render gulf_runtime
       (snd (Dashboard_effect gulf_runtime (\<lambda>r. Resolved (200, Raw (JStr [])))
          (signed_in_world, dashboard_initial))) = Nothing
   \<and> error (snd (Dashboard_effect gulf_runtime (\<lambda>r. Resolved (200, Raw (JStr ''<html>'')))
       (signed_in_world, dashboard_initial))) = None
   \<and> Dashboard_render gulf_runtime
       (snd (Dashboard_effect gulf_runtime (\<lambda>r. Resolved (200, Raw (JStr ''<html>'')))
          (signed_in_world, dashboard_initial))) = Throws TypeError"
  by (simp add: dashboard_flow world_ops signed_in_world_def dashboard_initial_def
      Dashboard_render_def get_prop_opt_def)

text \<open>
  C5, amended. When the gate finds a credential, exactly the one request is issued, and
  nothing is navigated or removed from storage unless the answer is a 401. If the request
  is rejected with anything but status 401 (no response at all, or a response with another
  status), the error variable holds the fixed message, the loading flag is down and the
  screen renders that message and nothing else. If the request is resolved, the body is
  stored as the data as it came, the loading flag is down and the error variable is left
  as it was: a malformed body in a resolved response does not lead to the message.
\<close>

theorem load_failure_shows_static_message:
  assumes "getItem ''token'' w = Some t" and "t \<noteq> []"
  shows "(\<forall>err. server (dashboard_request rt t) = Rejected err \<and> response_status err \<noteq> Some 401
           \<longrightarrow> error (snd (Dashboard_effect rt server (w, s)))
                 = Some ''Could not load data. Ensure your Laravel server is running.''
             \<and> loading (snd (Dashboard_effect rt server (w, s))) = False
             \<and> Dashboard_render rt (snd (Dashboard_effect rt server (w, s)))
                 = Shows (El ''div''
                     [Txt ''Could not load data. Ensure your Laravel server is running.''])
             \<and> requests (fst (Dashboard_effect rt server (w, s)))
                 = requests w @ [dashboard_request rt t]
             \<and> navigations (fst (Dashboard_effect rt server (w, s))) = navigations w
             \<and> localStorage (fst (Dashboard_effect rt server (w, s))) = localStorage w)
       \<and> (\<forall>status b. server (dashboard_request rt t) = Resolved (status, b)
           \<longrightarrow> data (snd (Dashboard_effect rt server (w, s))) = b
             \<and> loading (snd (Dashboard_effect rt server (w, s))) = False
             \<and> error (snd (Dashboard_effect rt server (w, s))) = error s
             \<and> requests (fst (Dashboard_effect rt server (w, s)))
                 = requests w @ [dashboard_request rt t]
             \<and> navigations (fst (Dashboard_effect rt server (w, s))) = navigations w
             \<and> localStorage (fst (Dashboard_effect rt server (w, s))) = localStorage w)"
  using assms by (simp add: dashboard_flow world_ops Dashboard_render_def)

theorem load_failure_shows_static_message_witness:
  "getItem ''token'' signed_in_world = Some ''abc''
   \<and> Dashboard_render gulf_runtime
     (snd (Dashboard_effect gulf_runtime (\<lambda>r. Rejected (AxiosError (Some (500, JNull))))
        (signed_in_world, dashboard_initial)))
     = Shows (El ''div'' [Txt ''Could not load data. Ensure your Laravel server is running.''])
   \<and> loading
     (snd (Dashboard_effect gulf_runtime (\<lambda>r. Rejected (AxiosError None))
        (signed_in_world, dashboard_initial))) = False
   \<and> length (requests
     (fst (Dashboard_effect gulf_runtime (\<lambda>r. Rejected (AxiosError None))
        (signed_in_world, dashboard_initial)))) = 1
   \<and> data
     (snd (Dashboard_effect gulf_runtime (\<lambda>r. Resolved (200, Profile scenario_profile))
        (signed_in_world, dashboard_initial))) = Profile scenario_profile
   \<and> error
     (snd (Dashboard_effect gulf_runtime (\<lambda>r. Resolved (200, Raw (JObj [])))
        (signed_in_world, dashboard_initial))) = None"
proof -
  have a: "getItem ''token'' signed_in_world = Some ''abc''"
    by (simp add: signed_in_world_def getItem_def)
  have r: "requests signed_in_world = []"
    by (simp add: signed_in_world_def)
  have e: "error dashboard_initial = None"
    by (simp add: dashboard_initial_def)
  show ?thesis
    using load_failure_shows_static_message
      [of signed_in_world "''abc''" "\<lambda>r. Rejected (AxiosError (Some (500, JNull)))"
          gulf_runtime dashboard_initial, OF a]
      load_failure_shows_static_message
      [of signed_in_world "''abc''" "\<lambda>r. Rejected (AxiosError None)"
          gulf_runtime dashboard_initial, OF a]
      load_failure_shows_static_message
      [of signed_in_world "''abc''" "\<lambda>r. Resolved (200, Profile scenario_profile)"
          gulf_runtime dashboard_initial, OF a]
      load_failure_shows_static_message
      [of signed_in_world "''abc''" "\<lambda>r. Resolved (200, Raw (JObj []))"
          gulf_runtime dashboard_initial, OF a]
    by (simp add: a r e)
qed

section \<open>Properties of the render\<close>

lemmas lease_card_parts = lease_card_def rent_line_def date_line_def contract_area_def

lemma screen_Loaded_render:
  "screen_of s = Loaded \<Longrightarrow>
     \<exists>d. data s = Profile d
       \<and> Dashboard_render rt s = Shows (El ''div'' [nav_bar d, main_area rt d])"
  by (auto simp: screen_of_def Dashboard_render_def split: if_splits body.splits)

lemma buttons_lease_cards: "concat (map (\<lambda>l. buttons (lease_card rt l)) ls) = []"
  by (simp add: lease_card_parts split: option.splits)

lemma headers_lease_cards: "concat (map (\<lambda>l. tagged ''header'' (lease_card rt l)) ls) = []"
  by (simp add: lease_card_parts split: option.splits)

lemma mains_lease_cards: "concat (map (\<lambda>l. tagged ''main'' (lease_card rt l)) ls) = []"
  by (simp add: lease_card_parts split: option.splits)

lemma anchors_lease_card:
  "anchors (lease_card rt l) =
     (case contract_url l of None \<Rightarrow> [] | Some u \<Rightarrow> if u = [] then [] else [u])"
  by (simp add: lease_card_parts split: option.splits)

lemma spans_lease_card:
  "tagged ''span'' (lease_card rt l) =
     (case contract_url l of
        None \<Rightarrow> [[Txt ''No contract uploaded'']]
      | Some u \<Rightarrow> if u = [] then [[Txt ''No contract uploaded'']] else [])"
  by (simp add: lease_card_parts split: option.splits)

lemma one_contract_element_per_card:
  "length (anchors (lease_card rt l)) + length (tagged ''span'' (lease_card rt l)) = 1"
  by (simp add: anchors_lease_card spans_lease_card split: option.splits)

lemma contract_elements_of_cards:
  "length (concat (map (\<lambda>l. anchors (lease_card rt l)) ls))
     + length (concat (map (\<lambda>l. tagged ''span'' (lease_card rt l)) ls)) = length ls"
proof (induction ls)
  case Nil
  show ?case by simp
next
  case (Cons l ls)
  have "length (anchors (lease_card rt l)) + length (tagged ''span'' (lease_card rt l)) = 1"
    by (rule one_contract_element_per_card)
  with Cons show ?case by simp
qed

lemma anchors_of_view:
  "anchors (El ''div'' [nav_bar d, main_area rt d])
     = concat (map (\<lambda>l. anchors (lease_card rt l)) (active_leases d))"
  by (simp add: nav_bar_def main_area_def header_badge_def o_def)

lemma spans_of_view:
  "tagged ''span'' (El ''div'' [nav_bar d, main_area rt d])
     = concat (map (\<lambda>l. tagged ''span'' (lease_card rt l)) (active_leases d))"
  by (simp add: nav_bar_def main_area_def header_badge_def o_def)

lemma mains_of_view:
  "tagged ''main'' (El ''div'' [nav_bar d, main_area rt d])
     = [[El ''header''
           [El ''div''
              [El ''h2'' [Txt ''Your Property Overview''],
               El ''p'' [Txt ''View your current lease details and important documents.'']],
            header_badge d],
         (if active_leases d \<noteq> []
          then El ''div'' (map (lease_card rt) (active_leases d))
          else El ''div''
                 [Txt ''You do not currently have any active leases assigned to your profile.''])]]"
  by (simp add: nav_bar_def main_area_def header_badge_def o_def mains_lease_cards)

text \<open>
  C6, as the claim states it, fails: while the screen is loading, and after a failed load,
  the rendered tree holds no button at all, so no sign-out action can be invoked.
\<close>

theorem sign_out_absent_when_loading_or_failed:
  "map_option buttons
     (shown (Dashboard_render gulf_runtime
        \<lparr>data = Raw JNull, loading = True, error = None\<rparr>)) = Some []
   \<and> map_option buttons
     (shown (Dashboard_render gulf_runtime
        \<lparr>data = Raw JNull, loading = False,
         error = Some ''Could not load data. Ensure your Laravel server is running.''\<rparr>))
       = Some []"
  by (simp add: Dashboard_render_def shown_def)

text \<open>
  C6, amended. In the Loaded state the rendered tree holds exactly one button, the
  sign-out button; in the Loading and Failed states it holds none. Running the sign-out
  handler in any browser state removes the slot \<^verbatim>\<open>token\<close> and navigates once, to the
  entry route.
\<close>

theorem sign_out_in_loaded_state:
  "(screen_of s = Loaded \<longrightarrow>
        map_option buttons (shown (Dashboard_render rt s)) = Some [SignOut])
   \<and> (screen_of s = Loading \<or> screen_of s = Failed \<longrightarrow>
        map_option buttons (shown (Dashboard_render rt s)) = Some [])
   \<and> getItem ''token'' (run_handler SignOut w) = None
   \<and> location (run_handler SignOut w) = ''/''
   \<and> navigations (run_handler SignOut w) = navigations w @ [''/'']"
  by (auto simp: screen_of_def Dashboard_render_def shown_def nav_bar_def main_area_def
      header_badge_def o_def buttons_lease_cards run_handler_def sign_out_def world_ops
      split: if_splits body.splits)

theorem sign_out_in_loaded_state_witness:
  "screen_of \<lparr>data = Profile scenario_profile, loading = False, error = None\<rparr> = Loaded
   \<and> map_option buttons
       (shown (Dashboard_render gulf_runtime
          \<lparr>data = Profile scenario_profile, loading = False, error = None\<rparr>)) = Some [SignOut]
   \<and> screen_of dashboard_initial = Loading
   \<and> map_option buttons (shown (Dashboard_render gulf_runtime dashboard_initial)) = Some []
   \<and> screen_of (dashboard_initial\<lparr>loading := False, error := Some ''Could not load data.''\<rparr>)
       = Failed
   \<and> map_option buttons
       (shown (Dashboard_render gulf_runtime
          (dashboard_initial\<lparr>loading := False, error := Some ''Could not load data.''\<rparr>)))
       = Some []
   \<and> getItem ''token'' (run_handler SignOut signed_in_world) = None
   \<and> location (run_handler SignOut signed_in_world) = ''/''"
proof -
  have a: "screen_of \<lparr>data = Profile scenario_profile, loading = False, error = None\<rparr> = Loaded"
    by (simp add: screen_of_def)
  have b: "screen_of dashboard_initial = Loading"
    by (simp add: screen_of_def dashboard_initial_def)
  have c: "screen_of (dashboard_initial\<lparr>loading := False, error := Some ''Could not load data.''\<rparr>)
             = Failed"
    by (simp add: screen_of_def dashboard_initial_def)
  show ?thesis
    using sign_out_in_loaded_state
      [of "\<lparr>data = Profile scenario_profile, loading = False, error = None\<rparr>" gulf_runtime
          signed_in_world]
      sign_out_in_loaded_state [of dashboard_initial gulf_runtime signed_in_world]
      sign_out_in_loaded_state
      [of "dashboard_initial\<lparr>loading := False, error := Some ''Could not load data.''\<rparr>"
          gulf_runtime signed_in_world]
    by (simp add: a b c)
qed

text \<open>
  C7. Every lease card holds exactly one of the two: the anchor to \<^verbatim>\<open>contract_url\<close> (and no
  indicator) when \<^verbatim>\<open>contract_url\<close> is a non-empty string, the \<^verbatim>\<open>No contract uploaded\<close>
  indicator (and no anchor) when it is \<^verbatim>\<open>null\<close> or empty. The Loaded view of a profile
  with leases holds, as the second child of its main area, exactly the cards of the
  profile's leases in their order; the anchors of the whole view are the non-empty
  contract URLs of the leases in order, its indicators are one for each lease without
  such a URL, and together they are as many as the leases.
\<close>

theorem contract_link_or_indicator:
  "(case contract_url l of
      None \<Rightarrow> anchors (lease_card rt l) = []
               \<and> tagged ''span'' (lease_card rt l) = [[Txt ''No contract uploaded'']]
    | Some u \<Rightarrow>
        if u = [] then anchors (lease_card rt l) = []
               \<and> tagged ''span'' (lease_card rt l) = [[Txt ''No contract uploaded'']]
        else anchors (lease_card rt l) = [u] \<and> tagged ''span'' (lease_card rt l) = [])
   \<and> length (anchors (lease_card rt l)) + length (tagged ''span'' (lease_card rt l)) = 1
   \<and> (screen_of s = Loaded \<longrightarrow>
        (\<exists>d v. data s = Profile d \<and> Dashboard_render rt s = Shows v
           \<and> tagged ''main'' v =
               [[El ''header''
                   [El ''div''
                      [El ''h2'' [Txt ''Your Property Overview''],
                       El ''p''
                         [Txt ''View your current lease details and important documents.'']],
                    header_badge d],
                 (if active_leases d \<noteq> []
                  then El ''div'' (map (lease_card rt) (active_leases d))
                  else El ''div''
                         [Txt ''You do not currently have any active leases assigned to your profile.''])]]
           \<and> anchors v =
               concat (map (\<lambda>l. case contract_url l of
                                  None \<Rightarrow> []
                                | Some u \<Rightarrow> if u = [] then [] else [u]) (active_leases d))
           \<and> tagged ''span'' v =
               concat (map (\<lambda>l. case contract_url l of
                                  None \<Rightarrow> [[Txt ''No contract uploaded'']]
                                | Some u \<Rightarrow>
                                    if u = [] then [[Txt ''No contract uploaded'']] else [])
                         (active_leases d))
           \<and> length (anchors v) + length (tagged ''span'' v) = length (active_leases d)))"
proof (intro conjI impI)
  show "case contract_url l of
      None \<Rightarrow> anchors (lease_card rt l) = []
               \<and> tagged ''span'' (lease_card rt l) = [[Txt ''No contract uploaded'']]
    | Some u \<Rightarrow>
        if u = [] then anchors (lease_card rt l) = []
               \<and> tagged ''span'' (lease_card rt l) = [[Txt ''No contract uploaded'']]
        else anchors (lease_card rt l) = [u] \<and> tagged ''span'' (lease_card rt l) = []"
    by (simp add: anchors_lease_card spans_lease_card split: option.splits)
  show "length (anchors (lease_card rt l)) + length (tagged ''span'' (lease_card rt l)) = 1"
    by (rule one_contract_element_per_card)
next
  assume "screen_of s = Loaded"
  then obtain d where d: "data s = Profile d"
      "Dashboard_render rt s = Shows (El ''div'' [nav_bar d, main_area rt d])"
    using screen_Loaded_render by blast
  let ?v = "El ''div'' [nav_bar d, main_area rt d]"
  have m: "tagged ''main'' ?v =
               [[El ''header''
                   [El ''div''
                      [El ''h2'' [Txt ''Your Property Overview''],
                       El ''p''
                         [Txt ''View your current lease details and important documents.'']],
                    header_badge d],
                 (if active_leases d \<noteq> []
                  then El ''div'' (map (lease_card rt) (active_leases d))
                  else El ''div''
                         [Txt ''You do not currently have any active leases assigned to your profile.''])]]"
    by (rule mains_of_view)
  have a: "anchors ?v =
               concat (map (\<lambda>l. case contract_url l of
                                  None \<Rightarrow> []
                                | Some u \<Rightarrow> if u = [] then [] else [u]) (active_leases d))"
    by (simp only: anchors_of_view anchors_lease_card)
  have sp: "tagged ''span'' ?v =
               concat (map (\<lambda>l. case contract_url l of
                                  None \<Rightarrow> [[Txt ''No contract uploaded'']]
                                | Some u \<Rightarrow>
                                    if u = [] then [[Txt ''No contract uploaded'']] else [])
                         (active_leases d))"
    by (simp only: spans_of_view spans_lease_card)
  have n: "length (anchors ?v) + length (tagged ''span'' ?v) = length (active_leases d)"
    using contract_elements_of_cards [of rt "active_leases d"]
    by (simp only: anchors_of_view spans_of_view)
  from d m a sp n
  show "\<exists>d v. data s = Profile d \<and> Dashboard_render rt s = Shows v
           \<and> tagged ''main'' v =
               [[El ''header''
                   [El ''div''
                      [El ''h2'' [Txt ''Your Property Overview''],
                       El ''p''
                         [Txt ''View your current lease details and important documents.'']],
                    header_badge d],
                 (if active_leases d \<noteq> []
                  then El ''div'' (map (lease_card rt) (active_leases d))
                  else El ''div''
                         [Txt ''You do not currently have any active leases assigned to your profile.''])]]
           \<and> anchors v =
               concat (map (\<lambda>l. case contract_url l of
                                  None \<Rightarrow> []
                                | Some u \<Rightarrow> if u = [] then [] else [u]) (active_leases d))
           \<and> tagged ''span'' v =
               concat (map (\<lambda>l. case contract_url l of
                                  None \<Rightarrow> [[Txt ''No contract uploaded'']]
                                | Some u \<Rightarrow>
                                    if u = [] then [[Txt ''No contract uploaded'']] else [])
                         (active_leases d))
           \<and> length (anchors v) + length (tagged ''span'' v) = length (active_leases d)"
    by blast
qed

theorem contract_link_or_indicator_witness:
  "anchors (lease_card gulf_runtime signed_lease) = [''https://files.example/contract-2.pdf'']
   \<and> tagged ''span'' (lease_card gulf_runtime signed_lease) = []
   \<and> anchors (lease_card gulf_runtime scenario_lease) = []
   \<and> tagged ''span'' (lease_card gulf_runtime scenario_lease) = [[Txt ''No contract uploaded'']]
   \<and> anchors (lease_card gulf_runtime (signed_lease\<lparr>contract_url := Some []\<rparr>)) = []
   \<and> tagged ''span'' (lease_card gulf_runtime (signed_lease\<lparr>contract_url := Some []\<rparr>))
       = [[Txt ''No contract uploaded'']]
   \<and> screen_of \<lparr>data = Profile two_lease_profile, loading = False, error = None\<rparr> = Loaded
   \<and> map_option anchors
       (shown (Dashboard_render gulf_runtime
          \<lparr>data = Profile two_lease_profile, loading = False, error = None\<rparr>))
       = Some [''https://files.example/contract-2.pdf'']
   \<and> map_option (tagged ''span'')
       (shown (Dashboard_render gulf_runtime
          \<lparr>data = Profile two_lease_profile, loading = False, error = None\<rparr>))
       = Some [[Txt ''No contract uploaded'']]"
proof -
  have a: "contract_url signed_lease = Some ''https://files.example/contract-2.pdf''"
    by (simp add: signed_lease_def)
  have b: "contract_url scenario_lease = None"
    by (simp add: scenario_lease_def)
  have c: "screen_of \<lparr>data = Profile two_lease_profile, loading = False, error = None\<rparr> = Loaded"
    by (simp add: screen_of_def)
  have l: "active_leases two_lease_profile = [signed_lease, scenario_lease]"
    by (simp add: two_lease_profile_def)
  show ?thesis
    using contract_link_or_indicator
      [where l = signed_lease and rt = gulf_runtime
         and s = "\<lparr>data = Profile two_lease_profile, loading = False, error = None\<rparr>"]
      contract_link_or_indicator
      [where l = scenario_lease and rt = gulf_runtime
         and s = "\<lparr>data = Profile two_lease_profile, loading = False, error = None\<rparr>"]
      contract_link_or_indicator
      [where l = "signed_lease\<lparr>contract_url := Some []\<rparr>" and rt = gulf_runtime
         and s = "\<lparr>data = Profile two_lease_profile, loading = False, error = None\<rparr>"]
    by (auto simp: a b c l shown_def)
qed

text \<open>The decimal numeral printed for a count reads back as that count.\<close>

lemma digit_of_digit_char: "digit_of (digit_char d) = Some (d mod 10)"
proof -
  define k where "k = d mod 10"
  have "k < 10" by (simp add: k_def)
  then have "k = 0 \<or> k = 1 \<or> k = 2 \<or> k = 3 \<or> k = 4 \<or> k = 5 \<or> k = 6 \<or> k = 7
      \<or> k = 8 \<or> k = 9"
    by arith
  then have "digit_of (''0123456789'' ! k) = Some k"
    by (elim disjE) (simp_all add: digit_of_def)
  then show ?thesis
    by (simp add: digit_char_def k_def)
qed

lemma digits_value_append:
  "digits_value acc (xs @ ys) =
     (case digits_value acc xs of None \<Rightarrow> None | Some a \<Rightarrow> digits_value a ys)"
  by (induction xs arbitrary: acc) (simp_all split: option.splits)

lemma digits_value_decimal: "digits_value 0 (decimal n) = Some n"
proof (induction n rule: decimal.induct)
  case (1 n)
  show ?case
  proof (cases "n < 10")
    case True
    then show ?thesis
      by (simp add: decimal.simps [of n] digit_of_digit_char)
  next
    case False
    with 1 have "digits_value 0 (decimal (n div 10)) = Some (n div 10)" by simp
    with False show ?thesis
      by (simp add: decimal.simps [of n] digits_value_append digit_of_digit_char)
  qed
qed

text \<open>
  C8. The badge reads the number of active leases (in decimal), then \<^verbatim>\<open>Active\<close>, then
  \<^verbatim>\<open>Lease\<close> if that number is 1 and \<^verbatim>\<open>Leases\<close> if it is anything else, 0 included; it is
  the second child of the header of the Loaded view.
\<close>

theorem badge_count_and_label:
  "textContent (header_badge d) =
     Some (decimal (length (active_leases d)) @ '' Active '' @
           (if length (active_leases d) = 1 then ''Lease'' else ''Leases''))
   \<and> digits_value 0 (decimal (length (active_leases d))) = Some (length (active_leases d))
   \<and> (header_badge d =
        El ''div'' [Txt (decimal (length (active_leases d))), Txt '' Active '', Txt ''Lease''])
       = (length (active_leases d) = 1)
   \<and> (header_badge d =
        El ''div'' [Txt (decimal (length (active_leases d))), Txt '' Active '', Txt ''Leases''])
       = (length (active_leases d) \<noteq> 1)
   \<and> (data s = Profile d \<and> screen_of s = Loaded \<longrightarrow>
        map_option (tagged ''header'') (shown (Dashboard_render rt s)) =
          Some [[El ''div'' [El ''h2'' [Txt ''Your Property Overview''],
                   El ''p'' [Txt ''View your current lease details and important documents.'']],
                 header_badge d]])"
  by (auto simp: header_badge_def screen_of_def Dashboard_render_def shown_def
      nav_bar_def main_area_def o_def headers_lease_cards digits_value_decimal
      split: option.splits if_splits)

theorem badge_count_and_label_witness:
  "textContent (header_badge scenario_profile) = Some ''1 Active Lease''
   \<and> textContent (header_badge (scenario_profile\<lparr>active_leases := []\<rparr>)) = Some ''0 Active Leases''
   \<and> textContent (header_badge (scenario_profile\<lparr>active_leases := [scenario_lease, signed_lease]\<rparr>))
       = Some ''2 Active Leases''
   \<and> screen_of \<lparr>data = Profile scenario_profile, loading = False, error = None\<rparr> = Loaded
   \<and> map_option (tagged ''header'')
       (shown (Dashboard_render gulf_runtime
          \<lparr>data = Profile scenario_profile, loading = False, error = None\<rparr>)) =
          Some [[El ''div'' [El ''h2'' [Txt ''Your Property Overview''],
                   El ''p'' [Txt ''View your current lease details and important documents.'']],
                 header_badge scenario_profile]]"
proof -
  have c: "screen_of \<lparr>data = Profile scenario_profile, loading = False, error = None\<rparr> = Loaded"
    by (simp add: screen_of_def)
  have l: "active_leases scenario_profile = [scenario_lease]"
    by (simp add: scenario_profile_def)
  have d: "decimal 0 = ''0''" "decimal (Suc 0) = ''1''" "decimal (Suc (Suc 0)) = ''2''"
    by (simp_all add: decimal.simps digit_char_def)
  show ?thesis
    using badge_count_and_label
      [of scenario_profile "\<lparr>data = Profile scenario_profile, loading = False, error = None\<rparr>"
          gulf_runtime]
      badge_count_and_label
      [of "scenario_profile\<lparr>active_leases := []\<rparr>"
          "\<lparr>data = Profile scenario_profile, loading = False, error = None\<rparr>" gulf_runtime]
      badge_count_and_label
      [of "scenario_profile\<lparr>active_leases := [scenario_lease, signed_lease]\<rparr>"
          "\<lparr>data = Profile scenario_profile, loading = False, error = None\<rparr>" gulf_runtime]
    by (auto simp: c d l)
qed





end
